theory Spec2Isabelle
  imports Complex_Main
begin

section \<open>Hardware readings and wire events\<close>

text \<open>
  The firmware polls digital lines.  \<open>GPIO.input\<close> yields \<open>GPIO.LOW\<close> (0) or
  \<open>GPIO.HIGH\<close> (1), or raises; a sysfs value file yields its stripped text, or opening it
  raises.  One poll iteration reads every line once, so the hardware seen by one iteration
  is a pair of functions from line numbers to readings, \<open>None\<close> standing for a raised
  exception.

  Timestamps are Python floats in the source; the model keeps them as exact rationals,
  so \<open>0.001\<close> and \<open>0.2\<close> are the fractions 1/1000 and 1/5 and differences are not rounded.
  The \<open>timestamp\<close> field of every emitted payload is a fresh \<open>time.time()\<close> read that
  no decision depends on; the events of the model carry the remaining fields.
\<close>

datatype level = LOW | HIGH

type_synonym gpio = "nat \<Rightarrow> level option"

type_synonym sysfs = "nat \<Rightarrow> string option"

datatype event =
    Key_change "bool option"
  | Switch_change string "bool option"
  | Encoder_change int int string
  | Encoder_button_press int

fun is_button_press :: "event \<Rightarrow> bool" where
  "is_button_press (Encoder_button_press _) = True"
| "is_button_press _ = False"

fun is_encoder_change :: "event \<Rightarrow> bool" where
  "is_encoder_change (Encoder_change _ _ _) = True"
| "is_encoder_change _ = False"

section \<open>socket\_server.py: ButtonMonitor\<close>

text \<open>\<open>last_state\<close> holds Python's \<open>None\<close>, \<open>True\<close> or \<open>False\<close>.\<close>

record button_monitor =
  last_state :: "bool option"

definition button_pin :: nat where
  "button_pin = 2"

definition ButtonMonitor_init :: button_monitor where
  "ButtonMonitor_init = \<lparr>last_state = None\<rparr>"

definition get_button_status :: "gpio \<Rightarrow> bool option" where
  "get_button_status g =
     (case g button_pin of
        None \<Rightarrow> None
      | Some state \<Rightarrow> Some (if state = HIGH then True else False))"

definition ButtonMonitor_check_and_emit ::
  "gpio \<Rightarrow> button_monitor \<Rightarrow> event list \<times> button_monitor" where
  "ButtonMonitor_check_and_emit g bm =
     (let current_state = get_button_status g in
      if current_state \<noteq> last_state bm
      then ([Key_change current_state], bm\<lparr>last_state := current_state\<rparr>)
      else ([], bm))"

section \<open>socket\_server.py: SwitchMonitor\<close>

text \<open>
  The dictionaries \<open>pins\<close>, \<open>colors\<close> and every result of \<open>get_switch_states\<close> have
  exactly the keys 18, 20 and 21, inserted in that order; they are functions on the
  three-element key type, iterated in \<open>switch_keys\<close> order.
\<close>

datatype switch_pin = GPIO18 | GPIO20 | GPIO21

definition switch_keys :: "switch_pin list" where
  "switch_keys = [GPIO18, GPIO20, GPIO21]"

fun pins :: "switch_pin \<Rightarrow> nat" where
  "pins GPIO18 = 530"
| "pins GPIO20 = 532"
| "pins GPIO21 = 533"

fun colors :: "switch_pin \<Rightarrow> string" where
  "colors GPIO18 = ''green''"
| "colors GPIO20 = ''blue''"
| "colors GPIO21 = ''red''"

record switch_reading =
  val :: string
  status :: "bool option"

record switch_monitor =
  last_states :: "switch_pin \<Rightarrow> switch_reading"

definition read_gpio :: "sysfs \<Rightarrow> nat \<Rightarrow> string" where
  "read_gpio fs pin = (case fs pin of None \<Rightarrow> ''Error'' | Some s \<Rightarrow> s)"

definition get_switch_states :: "sysfs \<Rightarrow> switch_pin \<Rightarrow> switch_reading" where
  "get_switch_states fs gpio_num =
     (let v = read_gpio fs (pins gpio_num) in
      \<lparr>val = v,
       status = (if v = ''1'' then Some True else if v = ''0'' then Some False else None)\<rparr>)"

definition SwitchMonitor_init :: "sysfs \<Rightarrow> switch_monitor" where
  "SwitchMonitor_init fs = \<lparr>last_states = get_switch_states fs\<rparr>"

definition SwitchMonitor_check_and_emit ::
  "sysfs \<Rightarrow> switch_monitor \<Rightarrow> event list \<times> switch_monitor" where
  "SwitchMonitor_check_and_emit fs sm =
     (let current_states = get_switch_states fs in
      (concat (map (\<lambda>gpio_num.
          if status (current_states gpio_num) \<noteq> status (last_states sm gpio_num)
          then [Switch_change (colors gpio_num) (status (current_states gpio_num))]
          else []) switch_keys),
       sm\<lparr>last_states := current_states\<rparr>))"

section \<open>socket\_server.py: RotaryEncoder\<close>

record rotary_encoder =
  encoder_id :: int
  pin_a :: nat
  pin_b :: nat
  pin_button :: "nat option"
  counter :: int
  last_counter :: int
  last_a :: level
  last_b :: level
  last_button :: level
  last_encoder_time :: rat
  last_button_time :: rat

definition encoder_debounce_delay :: rat where
  "encoder_debounce_delay = 0.001"

definition button_debounce_delay :: rat where
  "button_debounce_delay = 0.2"

definition RotaryEncoder_init :: "int \<Rightarrow> nat \<Rightarrow> nat \<Rightarrow> nat option \<Rightarrow> rotary_encoder" where
  "RotaryEncoder_init eid a b btn =
     \<lparr>encoder_id = eid, pin_a = a, pin_b = b, pin_button = btn,
      counter = 0, last_counter = 0, last_a = LOW, last_b = LOW, last_button = HIGH,
      last_encoder_time = 0, last_button_time = 0\<rparr>"

text \<open>Python truth value of \<open>self.pin_button\<close>: \<open>None\<close> and pin 0 are false.\<close>

definition truthy :: "nat option \<Rightarrow> bool" where
  "truthy p = (case p of None \<Rightarrow> False | Some n \<Rightarrow> n \<noteq> 0)"

text \<open>\<open>GPIO.input(self.pin_button) if self.pin_button else 1\<close>\<close>

definition read_button :: "gpio \<Rightarrow> nat option \<Rightarrow> level option" where
  "read_button g p =
     (case p of None \<Rightarrow> Some HIGH | Some n \<Rightarrow> if n \<noteq> 0 then g n else Some HIGH)"

text \<open>
  \<open>setup_gpio\<close> configures the lines and reads their initial levels; any exception
  (from \<open>GPIO.setup\<close> or \<open>GPIO.input\<close>) makes it return \<open>False\<close>, here \<open>None\<close>.
\<close>

definition setup_gpio :: "gpio \<Rightarrow> rotary_encoder \<Rightarrow> rotary_encoder option" where
  "setup_gpio g e =
     (case g (pin_a e) of None \<Rightarrow> None | Some a \<Rightarrow>
      (case g (pin_b e) of None \<Rightarrow> None | Some b \<Rightarrow>
       (case read_button g (pin_button e) of None \<Rightarrow> None | Some btn \<Rightarrow>
          Some (e\<lparr>last_a := a, last_b := b, last_button := btn\<rparr>))))"

text \<open>The A-edge block of \<open>update\<close>: quadrature decoding with the encoder window.\<close>

definition update_quadrature :: "rat \<Rightarrow> level \<Rightarrow> level \<Rightarrow> rotary_encoder \<Rightarrow> rotary_encoder" where
  "update_quadrature current_time current_a current_b e =
     (if current_a \<noteq> last_a e then
        (if current_time - last_encoder_time e > encoder_debounce_delay then
           (if current_a = HIGH then
              (if current_b = LOW then e\<lparr>counter := counter e + 1\<rparr>
               else e\<lparr>counter := counter e - 1\<rparr>)
            else
              (if current_b = HIGH then e\<lparr>counter := counter e + 1\<rparr>
               else e\<lparr>counter := counter e - 1\<rparr>))
           \<lparr>last_encoder_time := current_time\<rparr>
         else e)
        \<lparr>last_a := current_a\<rparr>
      else e)"

text \<open>The button block of \<open>update\<close>; the first component is \<open>button_pressed\<close>.\<close>

definition update_button :: "rat \<Rightarrow> level \<Rightarrow> rotary_encoder \<Rightarrow> bool \<times> rotary_encoder" where
  "update_button current_time current_button e =
     (if truthy (pin_button e) then
        (if current_button = LOW \<and> last_button e = HIGH then
           (if current_time - last_button_time e > button_debounce_delay then
              (True, e\<lparr>last_button_time := current_time, counter := 0,
                       last_button := current_button\<rparr>)
            else (False, e\<lparr>last_button := current_button\<rparr>))
         else (False, e\<lparr>last_button := current_button\<rparr>))
      else (False, e))"

text \<open>The two emission blocks of \<open>update\<close>, in the source's order.\<close>

definition update_emit :: "bool \<Rightarrow> rotary_encoder \<Rightarrow> event list \<times> rotary_encoder" where
  "update_emit button_pressed e =
     (let (ev1, e1) =
        (if counter e \<noteq> last_counter e then
           (let delta = counter e - last_counter e;
                direction = (if delta > 0 then ''right'' else ''left'')
            in ([Encoder_change (encoder_id e) (counter e) direction],
                e\<lparr>last_counter := counter e\<rparr>))
         else ([], e))
      in (ev1 @ (if button_pressed then [Encoder_button_press (encoder_id e)] else []), e1))"

definition update :: "rat \<Rightarrow> gpio \<Rightarrow> rotary_encoder \<Rightarrow> event list \<times> rotary_encoder" where
  "update current_time g e =
     (case g (pin_a e) of None \<Rightarrow> ([], e) | Some current_a \<Rightarrow>
      (case g (pin_b e) of None \<Rightarrow> ([], e) | Some current_b \<Rightarrow>
       (case read_button g (pin_button e) of None \<Rightarrow> ([], e) | Some current_button \<Rightarrow>
          (let e1 = update_quadrature current_time current_a current_b e;
               e2 = e1\<lparr>last_b := current_b\<rparr>;
               (button_pressed, e3) = update_button current_time current_button e2
           in update_emit button_pressed e3))))"

text \<open>Successive polls of one encoder: the events of all calls, in order, and the final state.\<close>

fun updates :: "(rat \<times> gpio) list \<Rightarrow> rotary_encoder \<Rightarrow> event list \<times> rotary_encoder" where
  "updates [] e = ([], e)"
| "updates ((t, g) # rest) e =
     (let (ev, e1) = update t g e;
          (evs, e2) = updates rest e1
      in (ev @ evs, e2))"

section \<open>socket\_server.py: FirmwareManager\<close>

record firmware_manager =
  switch_monitor :: switch_monitor
  button_monitor :: button_monitor
  encoders :: "rotary_encoder list"

definition encoder_configs :: "(int \<times> nat \<times> nat \<times> nat option) list" where
  "encoder_configs =
     [(3, 4, 17, Some 19),
      (2, 27, 22, Some 13),
      (1, 5, 6, Some 26),
      (4, 23, 24, None)]"

fun setup_encoders_from :: "gpio \<Rightarrow> (int \<times> nat \<times> nat \<times> nat option) list \<Rightarrow> rotary_encoder list" where
  "setup_encoders_from g [] = []"
| "setup_encoders_from g ((eid, a, b, btn) # configs) =
     (case setup_gpio g (RotaryEncoder_init eid a b btn) of
        None \<Rightarrow> setup_encoders_from g configs
      | Some encoder \<Rightarrow> encoder # setup_encoders_from g configs)"

definition setup_encoders :: "gpio \<Rightarrow> rotary_encoder list" where
  "setup_encoders g = setup_encoders_from g encoder_configs"

definition FirmwareManager_init :: "gpio \<Rightarrow> sysfs \<Rightarrow> firmware_manager" where
  "FirmwareManager_init g fs =
     \<lparr>switch_monitor = SwitchMonitor_init fs,
      button_monitor = ButtonMonitor_init,
      encoders = setup_encoders g\<rparr>"

fun update_all :: "rat \<Rightarrow> gpio \<Rightarrow> rotary_encoder list \<Rightarrow> event list \<times> rotary_encoder list" where
  "update_all current_time g [] = ([], [])"
| "update_all current_time g (encoder # rest) =
     (let (ev, encoder1) = update current_time g encoder;
          (evs, rest1) = update_all current_time g rest
      in (ev @ evs, encoder1 # rest1))"

text \<open>One iteration of \<open>monitor_loop\<close>: button, switches, then every encoder.\<close>

definition monitor_tick ::
  "rat \<Rightarrow> gpio \<Rightarrow> sysfs \<Rightarrow> firmware_manager \<Rightarrow> event list \<times> firmware_manager" where
  "monitor_tick current_time g fs m =
     (let (ev_b, bm) = ButtonMonitor_check_and_emit g (button_monitor m);
          (ev_s, sm) = SwitchMonitor_check_and_emit fs (switch_monitor m);
          (ev_e, es) = update_all current_time g (encoders m)
      in (ev_b @ ev_s @ ev_e,
          m\<lparr>button_monitor := bm, switch_monitor := sm, encoders := es\<rparr>))"

section \<open>inputs\_debug.py: RotaryEncoder\<close>

text \<open>
  The terminal variant has no \<open>last_counter\<close>, emits nothing, and clamps the counter
  at zero after a quadrature step.
\<close>

record debug_encoder =
  d_encoder_id :: int
  d_pin_a :: nat
  d_pin_b :: nat
  d_pin_button :: "nat option"
  d_counter :: int
  d_last_a :: level
  d_last_b :: level
  d_last_button :: level
  d_last_encoder_time :: rat
  d_last_button_time :: rat

definition debug_update_quadrature ::
  "rat \<Rightarrow> level \<Rightarrow> level \<Rightarrow> debug_encoder \<Rightarrow> debug_encoder" where
  "debug_update_quadrature current_time current_a current_b e =
     (if current_a \<noteq> d_last_a e then
        (if current_time - d_last_encoder_time e > encoder_debounce_delay then
           (let e1 = (if current_a = HIGH then
                        (if current_b = LOW then e\<lparr>d_counter := d_counter e + 1\<rparr>
                         else e\<lparr>d_counter := d_counter e - 1\<rparr>)
                      else
                        (if current_b = HIGH then e\<lparr>d_counter := d_counter e + 1\<rparr>
                         else e\<lparr>d_counter := d_counter e - 1\<rparr>));
                e2 = (if d_counter e1 < 0 then e1\<lparr>d_counter := 0\<rparr> else e1)
            in e2\<lparr>d_last_encoder_time := current_time\<rparr>)
         else e)
        \<lparr>d_last_a := current_a\<rparr>
      else e)"

definition debug_update_button :: "rat \<Rightarrow> level \<Rightarrow> debug_encoder \<Rightarrow> debug_encoder" where
  "debug_update_button current_time current_button e =
     (if truthy (d_pin_button e) then
        (if current_button = LOW \<and> d_last_button e = HIGH then
           (if current_time - d_last_button_time e > button_debounce_delay then
              e\<lparr>d_last_button_time := current_time, d_counter := 0,
                d_last_button := current_button\<rparr>
            else e\<lparr>d_last_button := current_button\<rparr>)
         else e\<lparr>d_last_button := current_button\<rparr>)
      else e)"

definition debug_update :: "rat \<Rightarrow> gpio \<Rightarrow> debug_encoder \<Rightarrow> debug_encoder" where
  "debug_update current_time g e =
     (case g (d_pin_a e) of None \<Rightarrow> e | Some current_a \<Rightarrow>
      (case g (d_pin_b e) of None \<Rightarrow> e | Some current_b \<Rightarrow>
       (case read_button g (d_pin_button e) of None \<Rightarrow> e | Some current_button \<Rightarrow>
          debug_update_button current_time current_button
            ((debug_update_quadrature current_time current_a current_b e)
               \<lparr>d_last_b := current_b\<rparr>))))"

fun debug_updates :: "(rat \<times> gpio) list \<Rightarrow> debug_encoder \<Rightarrow> debug_encoder" where
  "debug_updates [] e = e"
| "debug_updates ((t, g) # rest) e = debug_updates rest (debug_update t g e)"

section \<open>mac\_simulator.py: SimulatorServer\<close>

text \<open>
  The keyboard simulator, which announces that it broadcasts the same socket events as
  the real hardware.  Its state holds the key, the switches by colour and the encoder
  values by id.
\<close>

record simulator_server =
  key_active :: bool
  sim_switches :: "string \<rightharpoonup> bool"
  sim_encoders :: "int \<rightharpoonup> int"

definition SimulatorServer_init :: simulator_server where
  "SimulatorServer_init =
     \<lparr>key_active = True,
      sim_switches = [''green'' \<mapsto> True, ''blue'' \<mapsto> True, ''red'' \<mapsto> True],
      sim_encoders = [1 \<mapsto> 0, 2 \<mapsto> 0, 3 \<mapsto> 0, 4 \<mapsto> 0]\<rparr>"

definition emit_encoder_button_press ::
  "int \<Rightarrow> simulator_server \<Rightarrow> event list \<times> simulator_server" where
  "emit_encoder_button_press eid s =
     ([Encoder_button_press eid], s\<lparr>sim_encoders := (sim_encoders s)(eid \<mapsto> 0)\<rparr>)"

section \<open>Example inputs\<close>

text \<open>Encoder 1 of the configuration, turned up to 50, its button released.\<close>

definition encoder1_at_50 :: rotary_encoder where
  "encoder1_at_50 = (RotaryEncoder_init 1 5 6 (Some 26))\<lparr>counter := 50, last_counter := 50\<rparr>"

text \<open>Encoder 4 of the configuration (no button) as constructed, both phases low.\<close>

definition encoder4 :: rotary_encoder where
  "encoder4 = RotaryEncoder_init 4 23 24 None"

text \<open>A hardware snapshot in which the listed lines read as given and every other read raises.\<close>

definition lines :: "(nat \<times> level) list \<Rightarrow> gpio" where
  "lines xs = map_of xs"

text \<open>Encoder 4 just after an accepted edge at t = 1 s.\<close>

definition encoder4_after_edge :: rotary_encoder where
  "encoder4_after_edge = (RotaryEncoder_init 4 23 24 None)\<lparr>last_encoder_time := 1\<rparr>"

text \<open>Phase A of encoder 4 toggling every 0.2 ms, inside the 1 ms window.\<close>

definition fast_toggles :: "(rat \<times> gpio) list" where
  "fast_toggles =
     [(1.0002, lines [(23, HIGH), (24, LOW)]),
      (1.0004, lines [(23, LOW), (24, LOW)]),
      (1.0006, lines [(23, HIGH), (24, LOW)])]"

text \<open>Nothing touched: every GPIO line pulled up, every switch file reading \<open>1\<close>.\<close>

definition pulled_up :: gpio where
  "pulled_up = lines [(2, HIGH), (4, HIGH), (17, HIGH), (19, HIGH), (27, HIGH), (22, HIGH),
                      (13, HIGH), (5, HIGH), (6, HIGH), (26, HIGH), (23, HIGH), (24, HIGH)]"

definition released :: sysfs where
  "released = (\<lambda>pin. Some ''1'')"

definition encoder_at_rest :: "int \<Rightarrow> nat \<Rightarrow> nat \<Rightarrow> nat option \<Rightarrow> rotary_encoder" where
  "encoder_at_rest eid a b btn =
     (RotaryEncoder_init eid a b btn)\<lparr>last_a := HIGH, last_b := HIGH\<rparr>"

text \<open>The manager after construction and one tick, all with nothing touched.\<close>

definition after_first_tick :: firmware_manager where
  "after_first_tick =
     snd (monitor_tick 1 pulled_up released (FirmwareManager_init pulled_up released))"

text \<open>
  The levels offered to an encoder are the ones it holds: its last emitted value is its
  counter, phase A reads as \<open>last_a\<close> (or not at all), and its button, if it has one, reads
  as \<open>last_button\<close> (or not at all).  Phase B is free.
\<close>

abbreviation unchanged_encoder :: "gpio \<Rightarrow> rotary_encoder \<Rightarrow> bool" where
  "unchanged_encoder g e \<equiv>
     counter e = last_counter e \<and>
     (g (pin_a e) = None \<or> g (pin_a e) = Some (last_a e)) \<and>
     (truthy (pin_button e) \<longrightarrow>
        read_button g (pin_button e) = None \<or>
        read_button g (pin_button e) = Some (last_button e))"

section \<open>Basic facts about \<open>update\<close>\<close>

lemma update_read_failure:
  "g (pin_a e) = None \<or> g (pin_b e) = None \<or> read_button g (pin_button e) = None
   \<Longrightarrow> update t g e = ([], e)"
  by (auto simp: update_def split: option.splits)

lemma update_success:
  assumes "g (pin_a e) = Some a" "g (pin_b e) = Some b" "read_button g (pin_button e) = Some btn"
  shows "update t g e =
     update_emit (fst (update_button t btn ((update_quadrature t a b e)\<lparr>last_b := b\<rparr>)))
                 (snd (update_button t btn ((update_quadrature t a b e)\<lparr>last_b := b\<rparr>)))"
  using assms by (simp add: update_def Let_def split: prod.splits)

lemma update_cases:
  obtains (fail) "g (pin_a e) = None \<or> g (pin_b e) = None \<or> read_button g (pin_button e) = None"
      "update t g e = ([], e)"
  | (ok) a b btn where "g (pin_a e) = Some a" "g (pin_b e) = Some b"
      "read_button g (pin_button e) = Some btn"
proof (cases "g (pin_a e) = None \<or> g (pin_b e) = None \<or> read_button g (pin_button e) = None")
  case True
  then show ?thesis using fail update_read_failure by blast
next
  case False
  then show ?thesis using ok by auto
qed

lemma quad_counter_cases:
  "counter (update_quadrature t a b e) = counter e \<or>
   counter (update_quadrature t a b e) = counter e + 1 \<or>
   counter (update_quadrature t a b e) = counter e - 1"
  by (simp add: update_quadrature_def)

lemma quad_fields [simp]:
  "pin_button (update_quadrature t a b e) = pin_button e"
  "last_button (update_quadrature t a b e) = last_button e"
  "last_button_time (update_quadrature t a b e) = last_button_time e"
  "last_counter (update_quadrature t a b e) = last_counter e"
  "encoder_id (update_quadrature t a b e) = encoder_id e"
  "pin_a (update_quadrature t a b e) = pin_a e"
  "pin_b (update_quadrature t a b e) = pin_b e"
  "last_a (update_quadrature t a b e) = a"
  by (simp_all add: update_quadrature_def)

lemma quad_time:
  "last_encoder_time (update_quadrature t a b e) =
     (if a \<noteq> last_a e \<and> t - last_encoder_time e > encoder_debounce_delay then t
      else last_encoder_time e)"
  by (simp add: update_quadrature_def)

lemma button_fields [simp]:
  "pin_button (snd (update_button t btn e)) = pin_button e"
  "encoder_id (snd (update_button t btn e)) = encoder_id e"
  "pin_a (snd (update_button t btn e)) = pin_a e"
  "pin_b (snd (update_button t btn e)) = pin_b e"
  "last_a (snd (update_button t btn e)) = last_a e"
  "last_encoder_time (snd (update_button t btn e)) = last_encoder_time e"
  "last_counter (snd (update_button t btn e)) = last_counter e"
  by (simp_all add: update_button_def)

lemma emit_fields [simp]:
  "pin_button (snd (update_emit p e)) = pin_button e"
  "encoder_id (snd (update_emit p e)) = encoder_id e"
  "pin_a (snd (update_emit p e)) = pin_a e"
  "pin_b (snd (update_emit p e)) = pin_b e"
  "last_a (snd (update_emit p e)) = last_a e"
  "last_encoder_time (snd (update_emit p e)) = last_encoder_time e"
  "last_button (snd (update_emit p e)) = last_button e"
  "last_button_time (snd (update_emit p e)) = last_button_time e"
  "counter (snd (update_emit p e)) = counter e"
  "last_counter (snd (update_emit p e)) = counter e"
  by (simp_all add: update_emit_def Let_def split: prod.splits)

lemma update_pins [simp]:
  "pin_a (snd (update t g e)) = pin_a e"
  "pin_b (snd (update t g e)) = pin_b e"
  "pin_button (snd (update t g e)) = pin_button e"
  "encoder_id (snd (update t g e)) = encoder_id e"
  by (cases t g e rule: update_cases; simp add: update_success)+

lemma update_last_a:
  "g (pin_a e) = Some a \<Longrightarrow> g (pin_b e) = Some b \<Longrightarrow> read_button g (pin_button e) = Some btn
   \<Longrightarrow> last_a (snd (update t g e)) = a"
  by (simp add: update_success)

text \<open>The press test of the button block, and what an \<open>encoder_button_press\<close> event means.\<close>

lemma update_button_pressed:
  "fst (update_button t btn e) \<longleftrightarrow>
     truthy (pin_button e) \<and> btn = LOW \<and> last_button e = HIGH \<and>
     t - last_button_time e > button_debounce_delay"
  by (auto simp: update_button_def)

lemma update_press_filter:
  assumes "g (pin_a e) = Some a" "g (pin_b e) = Some b" "read_button g (pin_button e) = Some btn"
  shows "filter is_button_press (fst (update t g e)) =
     (if truthy (pin_button e) \<and> btn = LOW \<and> last_button e = HIGH \<and>
         t - last_button_time e > button_debounce_delay
      then [Encoder_button_press (encoder_id e)] else [])"
  by (simp add: update_success[OF assms] update_emit_def update_button_pressed Let_def
      split: prod.splits)

lemma update_button_counter:
  "counter (snd (update_button t btn e)) = (if fst (update_button t btn e) then 0 else counter e)"
  by (simp add: update_button_def)

lemma update_counter_no_press:
  assumes "g (pin_a e) = Some a" "g (pin_b e) = Some b" "read_button g (pin_button e) = Some btn"
    and "\<not> (truthy (pin_button e) \<and> btn = LOW \<and> last_button e = HIGH \<and>
            t - last_button_time e > button_debounce_delay)"
  shows "counter (snd (update t g e)) = counter (update_quadrature t a b e)"
proof -
  have "\<not> fst (update_button t btn ((update_quadrature t a b e)\<lparr>last_b := b\<rparr>))"
    using assms(4) by (simp add: update_button_pressed)
  then show ?thesis
    by (simp add: update_success[OF assms(1-3)] update_button_counter)
qed

lemma update_events_kind:
  "ev \<in> set (fst (update t g e)) \<Longrightarrow> is_encoder_change ev \<or> is_button_press ev"
  by (auto simp: update_def update_emit_def Let_def split: option.splits prod.splits if_splits)

text \<open>After a completed \<open>update\<close> the last emitted value equals the counter.\<close>

lemma update_sync:
  "counter e = last_counter e \<Longrightarrow>
   counter (snd (update t g e)) = last_counter (snd (update t g e))"
  by (cases t g e rule: update_cases) (simp_all add: update_success)

section \<open>Runs of \<open>update\<close> on one encoder\<close>

lemma updates_Cons_snd [simp]:
  "snd (updates ((t, g) # rest) e) = snd (updates rest (snd (update t g e)))"
  by (simp add: Let_def split: prod.splits)

lemma updates_Cons_fst [simp]:
  "fst (updates ((t, g) # rest) e) =
     fst (update t g e) @ fst (updates rest (snd (update t g e)))"
  by (simp add: Let_def split: prod.splits)

declare updates.simps(2) [simp del]

lemma updates_pins [simp]:
  "pin_a (snd (updates samples e)) = pin_a e"
  "pin_b (snd (updates samples e)) = pin_b e"
  "pin_button (snd (updates samples e)) = pin_button e"
  "encoder_id (snd (updates samples e)) = encoder_id e"
  by (induction samples arbitrary: e) auto

lemma update_encoder_time:
  "last_encoder_time (snd (update t g e)) =
     (case (g (pin_a e), g (pin_b e), read_button g (pin_button e)) of
        (Some a, Some b, Some btn) \<Rightarrow>
          if a \<noteq> last_a e \<and> t - last_encoder_time e > encoder_debounce_delay then t
          else last_encoder_time e
      | _ \<Rightarrow> last_encoder_time e)"
  by (cases t g e rule: update_cases)
     (auto simp: update_success quad_time update_read_failure split: option.splits)

lemma update_time_rejected:
  "t - last_encoder_time e \<le> encoder_debounce_delay \<Longrightarrow>
   last_encoder_time (snd (update t g e)) = last_encoder_time e"
  by (auto simp: update_encoder_time split: option.splits)

lemma updates_time_rejected:
  "\<forall>(t, g) \<in> set samples. t - last_encoder_time e \<le> encoder_debounce_delay \<Longrightarrow>
   last_encoder_time (snd (updates samples e)) = last_encoder_time e"
proof (induction samples arbitrary: e)
  case Nil
  then show ?case by simp
next
  case (Cons s samples)
  obtain t g where s: "s = (t, g)" by (cases s)
  have 1: "last_encoder_time (snd (update t g e)) = last_encoder_time e"
    using Cons.prems s by (simp add: update_time_rejected)
  have "last_encoder_time (snd (updates samples (snd (update t g e)))) =
        last_encoder_time (snd (update t g e))"
    using Cons.prems 1 by (intro Cons.IH) auto
  then show ?case using 1 s by simp
qed

section \<open>Basic facts about the button, the switches and a whole tick\<close>

lemma colors_inj: "colors p = colors q \<longleftrightarrow> p = q"
  by (cases p; cases q; simp)

lemma switch_events_set:
  "set (fst (SwitchMonitor_check_and_emit fs sm)) =
     {Switch_change (colors q) (status (get_switch_states fs q)) | q.
        status (get_switch_states fs q) \<noteq> status (last_states sm q)}"
proof -
  have k: "set switch_keys = UNIV"
    using switch_pin.exhaust by (auto simp: switch_keys_def)
  show ?thesis
    by (auto simp: SwitchMonitor_check_and_emit_def Let_def k split: if_splits)
qed

lemma switch_event_iff:
  "Switch_change (colors p) s \<in> set (fst (SwitchMonitor_check_and_emit fs sm)) \<longleftrightarrow>
     s = status (get_switch_states fs p) \<and> s \<noteq> status (last_states sm p)"
  by (auto simp: switch_events_set colors_inj)

lemma switch_after:
  "last_states (snd (SwitchMonitor_check_and_emit fs sm)) = get_switch_states fs"
  by (simp add: SwitchMonitor_check_and_emit_def Let_def)

lemma switch_read_failure_status:
  "fs (pins p) = None \<Longrightarrow> status (get_switch_states fs p) = None"
  by (simp add: get_switch_states_def read_gpio_def Let_def)

lemma switch_events_kind:
  "ev \<in> set (fst (SwitchMonitor_check_and_emit fs sm)) \<Longrightarrow> \<exists>c s. ev = Switch_change c s"
  by (auto simp: switch_events_set)

lemma button_event_iff:
  "Key_change s \<in> set (fst (ButtonMonitor_check_and_emit g bm)) \<longleftrightarrow>
     s = get_button_status g \<and> s \<noteq> last_state bm"
  by (auto simp: ButtonMonitor_check_and_emit_def Let_def)

lemma button_after:
  "last_state (snd (ButtonMonitor_check_and_emit g bm)) = get_button_status g"
  by (auto simp: ButtonMonitor_check_and_emit_def Let_def)

lemma button_events_kind:
  "ev \<in> set (fst (ButtonMonitor_check_and_emit g bm)) \<Longrightarrow> \<exists>s. ev = Key_change s"
  by (auto simp: ButtonMonitor_check_and_emit_def Let_def split: if_splits)

lemma update_all_events_kind:
  "ev \<in> set (fst (update_all t g es)) \<Longrightarrow> is_encoder_change ev \<or> is_button_press ev"
proof (induction es)
  case Nil
  then show ?case by simp
next
  case (Cons e es)
  then show ?case
    using update_events_kind[of ev t g e]
    by (auto simp: Let_def split: prod.splits)
qed

lemma monitor_tick_events:
  "fst (monitor_tick t g fs m) =
     fst (ButtonMonitor_check_and_emit g (button_monitor m)) @
     fst (SwitchMonitor_check_and_emit fs (switch_monitor m)) @
     fst (update_all t g (encoders m))"
  by (simp add: monitor_tick_def Let_def split: prod.splits)

lemma monitor_tick_state:
  "button_monitor (snd (monitor_tick t g fs m)) =
     snd (ButtonMonitor_check_and_emit g (button_monitor m))"
  "switch_monitor (snd (monitor_tick t g fs m)) =
     snd (SwitchMonitor_check_and_emit fs (switch_monitor m))"
  "encoders (snd (monitor_tick t g fs m)) = snd (update_all t g (encoders m))"
  by (simp_all add: monitor_tick_def Let_def split: prod.splits)

section \<open>Button presses, quiet calls and quiet ticks\<close>






lemma update_quiet:
  assumes "counter e = last_counter e"
    and "g (pin_a e) = None \<or> g (pin_a e) = Some (last_a e)"
    and "filter is_button_press (fst (update t g e)) = []"
  shows "fst (update t g e) = []"
proof (cases t g e rule: update_cases)
  case fail
  then show ?thesis by simp
next
  case (ok a b btn)
  have a: "a = last_a e" using assms(2) ok by simp
  have q: "update_quadrature t a b e = e" using a by (simp add: update_quadrature_def)
  have n: "\<not> fst (update_button t btn (e\<lparr>last_b := b\<rparr>))"
    using assms(3) unfolding update_press_filter[OF ok] update_button_pressed
    by (auto split: if_splits)
  show ?thesis using n assms(1)
    by (simp add: update_success[OF ok] q update_emit_def update_button_counter Let_def)
qed

lemma update_unchanged:
  assumes "unchanged_encoder g e"
  shows "fst (update t g e) = [] \<and> unchanged_encoder g (snd (update t g e))"
proof (cases t g e rule: update_cases)
  case fail
  then show ?thesis using assms by simp
next
  case (ok a b btn)
  have a: "a = last_a e" using assms ok by simp
  have q: "update_quadrature t a b e = e" using a by (simp add: update_quadrature_def)
  have np: "\<not> (truthy (pin_button e) \<and> btn = LOW \<and> last_button e = HIGH \<and>
      t - last_button_time e > button_debounce_delay)"
    using assms ok by auto
  have f: "filter is_button_press (fst (update t g e)) = []"
    using np unfolding update_press_filter[OF ok] by simp
  have e: "fst (update t g e) = []"
    using assms f by (intro update_quiet) auto
  have lb: "truthy (pin_button e) \<Longrightarrow> last_button (snd (update t g e)) = last_button e"
    using assms ok by (auto simp: update_success[OF ok] q update_button_def)
  have la: "last_a (snd (update t g e)) = last_a e"
    using update_last_a[OF ok] a by simp
  have sy: "counter (snd (update t g e)) = last_counter (snd (update t g e))"
    using assms by (intro update_sync) simp
  show ?thesis using e la sy lb assms by auto
qed

lemma update_all_Cons_fst [simp]:
  "fst (update_all t g (e # es)) = fst (update t g e) @ fst (update_all t g es)"
  by (simp add: Let_def split: prod.splits)

lemma update_all_Cons_snd [simp]:
  "snd (update_all t g (e # es)) = snd (update t g e) # snd (update_all t g es)"
  by (simp add: Let_def split: prod.splits)

declare update_all.simps(2) [simp del]

lemma update_all_unchanged:
  "\<forall>e \<in> set es. unchanged_encoder g e \<Longrightarrow>
   fst (update_all t g es) = [] \<and> (\<forall>e \<in> set (snd (update_all t g es)). unchanged_encoder g e)"
proof (induction es)
  case Nil
  then show ?case by simp
next
  case (Cons e es)
  have 1: "fst (update t g e) = [] \<and> unchanged_encoder g (snd (update t g e))"
    using Cons.prems by (intro update_unchanged) simp
  have 2: "fst (update_all t g es) = [] \<and>
           (\<forall>e \<in> set (snd (update_all t g es)). unchanged_encoder g e)"
    using Cons.prems by (intro Cons.IH) simp
  show ?case using 1 2 by simp
qed

lemma button_unchanged:
  "get_button_status g = last_state bm \<Longrightarrow> ButtonMonitor_check_and_emit g bm = ([], bm)"
  by (simp add: ButtonMonitor_check_and_emit_def Let_def)

lemma switch_unchanged:
  "\<forall>p. status (get_switch_states fs p) = status (last_states sm p) \<Longrightarrow>
   fst (SwitchMonitor_check_and_emit fs sm) = []"
  by (simp add: SwitchMonitor_check_and_emit_def Let_def)

lemma tick_unchanged:
  assumes "get_button_status g = last_state (button_monitor m)"
    and "\<forall>p. status (get_switch_states fs p) = status (last_states (switch_monitor m) p)"
    and "\<forall>e \<in> set (encoders m). unchanged_encoder g e"
  shows "fst (monitor_tick t g fs m) = [] \<and>
         get_button_status g = last_state (button_monitor (snd (monitor_tick t g fs m))) \<and>
         (\<forall>p. status (get_switch_states fs p) =
               status (last_states (switch_monitor (snd (monitor_tick t g fs m))) p)) \<and>
         (\<forall>e \<in> set (encoders (snd (monitor_tick t g fs m))). unchanged_encoder g e)"
  using update_all_unchanged[OF assms(3), of t] assms(1,2)
  by (simp add: monitor_tick_events monitor_tick_state button_unchanged switch_unchanged
      switch_after)

text \<open>The last emitted value equals the counter from construction on.\<close>

lemma setup_gpio_sync:
  "setup_gpio g (RotaryEncoder_init eid a b btn) = Some e \<Longrightarrow> counter e = last_counter e"
  by (auto simp: setup_gpio_def RotaryEncoder_init_def split: option.splits)

lemma update_all_sync:
  "\<forall>e \<in> set es. counter e = last_counter e \<Longrightarrow>
   \<forall>e \<in> set (snd (update_all t g es)). counter e = last_counter e"
  by (induction es) (auto simp: update_sync)

section \<open>Claims\<close>

text \<open>
  C9.  On the first tick after construction, whenever the read of the button line
  succeeds, \<open>ButtonMonitor.check_and_emit\<close> emits a \<open>key_change\<close> event, whatever the level:
  \<open>last_state\<close> starts as \<open>None\<close>, which differs from both \<open>True\<close> and \<open>False\<close>.  The event
  carries \<open>True\<close> for a high line and \<open>False\<close> for a low one, and that value is then held.
\<close>

theorem C9_first_tick_emits_key_change:
  "g button_pin = Some lvl \<Longrightarrow>
   ButtonMonitor_check_and_emit g ButtonMonitor_init =
     ([Key_change (Some (lvl = HIGH))], \<lparr>last_state = Some (lvl = HIGH)\<rparr>)"
  by (simp add: ButtonMonitor_check_and_emit_def ButtonMonitor_init_def
      get_button_status_def Let_def)

text \<open>The button held down at start-up: the first tick reports \<open>active = False\<close>.\<close>

theorem C9_witness:
  "lines [(2, LOW)] button_pin = Some LOW \<and>
   ButtonMonitor_check_and_emit (lines [(2, LOW)]) ButtonMonitor_init =
     ([Key_change (Some False)], \<lparr>last_state = Some False\<rparr>)"
  using C9_first_tick_emits_key_change [of "lines [(2, LOW)]" LOW]
  by (simp add: button_pin_def lines_def)

text \<open>
  C10.  An encoder constructed with \<open>pin_button = None\<close> (encoder 4 of the configuration)
  never emits \<open>encoder_button_press\<close>, in one call or in any run of calls; each call leaves
  the counter where it was or moves it by exactly one, and the encoder still has no button
  afterwards.
\<close>

theorem C10_no_button_no_press:
  assumes "pin_button e = None"
  shows "(\<forall>ev \<in> set (fst (update t g e)). \<not> is_button_press ev) \<and>
         (counter (snd (update t g e)) = counter e \<or>
          counter (snd (update t g e)) = counter e + 1 \<or>
          counter (snd (update t g e)) = counter e - 1) \<and>
         pin_button (snd (update t g e)) = None"
proof (cases t g e rule: update_cases)
  case fail
  then show ?thesis using assms by simp
next
  case (ok a b btn)
  have u: "update t g e = update_emit False ((update_quadrature t a b e)\<lparr>last_b := b\<rparr>)"
    using ok assms by (simp add: update_def update_button_def truthy_def Let_def)
  show ?thesis unfolding u using quad_counter_cases[of t a b e] assms
    by (auto simp: update_emit_def Let_def)
qed

text \<open>Encoder 4 turned one step clockwise: one \<open>encoder_change\<close>, no press.\<close>

theorem C10_witness:
  "pin_button encoder4 = None \<and>
   (4, 23, 24, None) \<in> set encoder_configs \<and>
   fst (update 1 (lines [(23, HIGH), (24, LOW)]) encoder4) = [Encoder_change 4 1 ''right''] \<and>
   filter is_button_press (fst (update 1 (lines [(23, HIGH), (24, LOW)]) encoder4)) = [] \<and>
   counter (snd (update 1 (lines [(23, HIGH), (24, LOW)]) encoder4)) = counter encoder4 + 1"
  using C10_no_button_no_press [of encoder4 1 "lines [(23, HIGH), (24, LOW)]"]
  by (simp add: encoder4_def RotaryEncoder_init_def encoder_configs_def lines_def
      update_def update_quadrature_def update_button_def update_emit_def read_button_def
      truthy_def encoder_debounce_delay_def Let_def)

text \<open>
  C4.  One \<open>update\<close> call of the quadrature decoder, all reads succeeding and no button
  press accepted in the call (so that the counter shows the step alone).  If the sampled
  phase A equals \<open>last_a\<close> the counter is unchanged, whatever B does.  If A changed and
  more than the encoder window has elapsed since the last accepted edge, the counter
  rises by one exactly when A rose with B low or A fell with B high, and falls by one
  exactly when A rose with B high or A fell with B low.
\<close>

theorem C4_quadrature_truth_table:
  assumes "g (pin_a e) = Some a" and "g (pin_b e) = Some b"
    and "read_button g (pin_button e) = Some btn"
    and "\<not> (truthy (pin_button e) \<and> btn = LOW \<and> last_button e = HIGH \<and>
            t - last_button_time e > button_debounce_delay)"
  shows "(a = last_a e \<longrightarrow> counter (snd (update t g e)) = counter e) \<and>
         (a \<noteq> last_a e \<and> t - last_encoder_time e > encoder_debounce_delay \<longrightarrow>
            (counter (snd (update t g e)) = counter e + 1 \<longleftrightarrow>
               (last_a e = LOW \<and> a = HIGH \<and> b = LOW) \<or>
               (last_a e = HIGH \<and> a = LOW \<and> b = HIGH)) \<and>
            (counter (snd (update t g e)) = counter e - 1 \<longleftrightarrow>
               (last_a e = LOW \<and> a = HIGH \<and> b = HIGH) \<or>
               (last_a e = HIGH \<and> a = LOW \<and> b = LOW)))"
proof -
  have c: "counter (snd (update t g e)) = counter (update_quadrature t a b e)"
    using assms by (rule update_counter_no_press)
  show ?thesis unfolding c
    by (cases a; cases b; cases "last_a e"; simp add: update_quadrature_def)
qed

text \<open>
  Encoder 4 with A low: B rising alone gives no step; A rising with B low steps forward;
  A rising with B high steps backward.
\<close>

theorem C4_witness:
  "lines [(23, LOW), (24, HIGH)] (pin_a encoder4) = Some (last_a encoder4) \<and>
   counter (snd (update 1 (lines [(23, LOW), (24, HIGH)]) encoder4)) = counter encoder4 \<and>
   lines [(23, HIGH), (24, LOW)] (pin_a encoder4) = Some HIGH \<and>
   last_a encoder4 = LOW \<and>
   1 - last_encoder_time encoder4 > encoder_debounce_delay \<and>
   counter (snd (update 1 (lines [(23, HIGH), (24, LOW)]) encoder4)) = counter encoder4 + 1 \<and>
   counter (snd (update 1 (lines [(23, HIGH), (24, HIGH)]) encoder4)) = counter encoder4 - 1"
  using C4_quadrature_truth_table [of "lines [(23, LOW), (24, HIGH)]" encoder4 LOW HIGH HIGH 1]
        C4_quadrature_truth_table [of "lines [(23, HIGH), (24, LOW)]" encoder4 HIGH LOW HIGH 1]
        C4_quadrature_truth_table [of "lines [(23, HIGH), (24, HIGH)]" encoder4 HIGH HIGH HIGH 1]
  by (simp add: encoder4_def RotaryEncoder_init_def lines_def read_button_def truthy_def
      encoder_debounce_delay_def)

text \<open>
  C1.  An accepted press with the counter positive is to reset the counter to 0 and emit
  exactly one \<open>encoder_button_press\<close>, with no \<open>encoder_change\<close> for that reset.
  \<open>mac_simulator.py\<close> does so; \<open>socket_server.py\<close> does not: its \<open>update\<close> runs the
  counter-change emission after the reset, so encoder 1 at 50, pressed at t = 1 s, sends
  an \<open>encoder_change\<close> with value 0 ahead of the press event.
\<close>

theorem C1_socket_server_press_emits_encoder_change:
  "fst (update 1 (lines [(5, LOW), (6, LOW), (26, LOW)]) encoder1_at_50) =
     [Encoder_change 1 0 ''left'', Encoder_button_press 1] \<and>
   filter is_encoder_change
     (fst (update 1 (lines [(5, LOW), (6, LOW), (26, LOW)]) encoder1_at_50)) =
     [Encoder_change 1 0 ''left''] \<and>
   counter (snd (update 1 (lines [(5, LOW), (6, LOW), (26, LOW)]) encoder1_at_50)) = 0"
  by (simp add: encoder1_at_50_def RotaryEncoder_init_def lines_def read_button_def truthy_def
      button_debounce_delay_def update_def update_quadrature_def update_button_def
      update_emit_def Let_def)

text \<open>
  The same happens at every positive counter: the reset is caught by the emission block
  that follows the button block.
\<close>

lemma update_press_events:
  assumes "truthy (pin_button e)"
    and "g (pin_a e) = Some a" and "g (pin_b e) = Some b"
    and "read_button g (pin_button e) = Some LOW"
    and "last_button e = HIGH"
    and "t - last_button_time e > button_debounce_delay"
    and "counter e > 0" and "last_counter e = counter e"
  shows "fst (update t g e) =
           [Encoder_change (encoder_id e) 0 ''left'', Encoder_button_press (encoder_id e)] \<and>
         counter (snd (update t g e)) = 0 \<and>
         last_counter (snd (update t g e)) = 0"
  using assms by (simp add: update_def update_button_def update_emit_def Let_def)

text \<open>The simulator's press: the value goes to 0 and the press event is the only event.\<close>

lemma simulator_press_only:
  "fst (emit_encoder_button_press eid s) = [Encoder_button_press eid] \<and>
   sim_encoders (snd (emit_encoder_button_press eid s)) eid = Some 0"
  by (simp add: emit_encoder_button_press_def)

text \<open>
  C2.  The counter is never to be negative.  \<open>inputs_debug.py\<close> clamps after every
  quadrature step; the otherwise identical \<open>update\<close> of \<open>socket_server.py\<close> has
  no clamp.  Encoder 4 at 0, A rising with B high: the socket server's counter becomes
  -1 and an \<open>encoder_change\<close> with value -1 goes out.
\<close>

theorem C2_socket_server_counter_goes_negative:
  "counter encoder4 = 0 \<and>
   counter (snd (update 1 (lines [(23, HIGH), (24, HIGH)]) encoder4)) = - 1 \<and>
   fst (update 1 (lines [(23, HIGH), (24, HIGH)]) encoder4) = [Encoder_change 4 (- 1) ''left'']"
  by (simp add: encoder4_def RotaryEncoder_init_def lines_def read_button_def truthy_def
      encoder_debounce_delay_def update_def update_quadrature_def update_button_def
      update_emit_def Let_def)

text \<open>The terminal variant keeps the claim: its counter never leaves the non-negatives.\<close>

lemma debug_update_nonneg:
  "0 \<le> d_counter e \<Longrightarrow> 0 \<le> d_counter (debug_update t g e)"
  by (auto simp: debug_update_def debug_update_quadrature_def debug_update_button_def Let_def
      split: option.splits)

lemma debug_updates_nonneg:
  "0 \<le> d_counter e \<Longrightarrow> 0 \<le> d_counter (debug_updates samples e)"
proof (induction samples arbitrary: e)
  case Nil
  then show ?case by simp
next
  case (Cons s samples)
  obtain t g where s: "s = (t, g)" by (cases s)
  show ?case using Cons.prems s by (simp add: Cons.IH debug_update_nonneg)
qed

lemma debug_update_floor:
  assumes "d_counter e = 0" and "d_last_a e = LOW"
    and "g (d_pin_a e) = Some HIGH" and "g (d_pin_b e) = Some HIGH"
    and "read_button g (d_pin_button e) = Some btn"
  shows "d_counter (debug_update t g e) = 0"
  using assms
  by (auto simp: debug_update_def debug_update_quadrature_def debug_update_button_def Let_def)

text \<open>
  C3 (as the code has it).  A failed read is not held back.  For the push button a
  failed read is the status \<open>None\<close>: when the held status is \<open>True\<close> or \<open>False\<close> the tick
  emits \<open>key_change\<close> with \<open>active = None\<close> and the held status becomes \<open>None\<close>; when it is
  already \<open>None\<close> nothing is emitted.  For a switch whose value file cannot be read the
  held status becomes \<open>None\<close>, and \<open>switch_change\<close> with \<open>active = None\<close> is emitted
  exactly when the held status was not \<open>None\<close>.  For an encoder, a failed read of any of
  its lines makes \<open>update\<close> emit nothing and leave the encoder as it was.
\<close>

theorem C3_failed_read_is_published:
  "(g button_pin = None \<longrightarrow>
      ButtonMonitor_check_and_emit g bm =
        (if last_state bm = None then ([], bm)
         else ([Key_change None], bm\<lparr>last_state := None\<rparr>))) \<and>
   (fs (pins p) = None \<longrightarrow>
      status (last_states (snd (SwitchMonitor_check_and_emit fs sm)) p) = None \<and>
      (Switch_change (colors p) None \<in> set (fst (SwitchMonitor_check_and_emit fs sm))
         \<longleftrightarrow> status (last_states sm p) \<noteq> None)) \<and>
   (g (pin_a e) = None \<or> g (pin_b e) = None \<or> read_button g (pin_button e) = None \<longrightarrow>
      update t g e = ([], e))"
proof (intro conjI impI)
  assume "g button_pin = None"
  then show "ButtonMonitor_check_and_emit g bm =
        (if last_state bm = None then ([], bm)
         else ([Key_change None], bm\<lparr>last_state := None\<rparr>))"
    by (auto simp: ButtonMonitor_check_and_emit_def get_button_status_def Let_def)
next
  assume f: "fs (pins p) = None"
  show "status (last_states (snd (SwitchMonitor_check_and_emit fs sm)) p) = None"
    by (simp add: switch_after switch_read_failure_status f)
  show "Switch_change (colors p) None \<in> set (fst (SwitchMonitor_check_and_emit fs sm))
         \<longleftrightarrow> status (last_states sm p) \<noteq> None"
    using switch_read_failure_status[of fs p] f
    by (cases "status (last_states sm p)") (auto simp: switch_event_iff)
next
  assume "g (pin_a e) = None \<or> g (pin_b e) = None \<or> read_button g (pin_button e) = None"
  then show "update t g e = ([], e)" by (rule update_read_failure)
qed

text \<open>
  Every line unreadable: the button held as pressed and the green switch held as
  released both publish \<open>None\<close>; encoder 4 stays as it was.
\<close>

theorem C3_witness:
  "lines [] button_pin = None \<and>
   ButtonMonitor_check_and_emit (lines []) \<lparr>last_state = Some False\<rparr> =
     ([Key_change None], \<lparr>last_state = None\<rparr>) \<and>
   (\<lambda>pin. None :: string option) (pins GPIO18) = None \<and>
   status (last_states (SwitchMonitor_init (\<lambda>pin. Some ''1'')) GPIO18) = Some True \<and>
   Switch_change ''green'' None \<in>
     set (fst (SwitchMonitor_check_and_emit (\<lambda>pin. None)
               (SwitchMonitor_init (\<lambda>pin. Some ''1'')))) \<and>
   lines [] (pin_a encoder4) = None \<and>
   update 1 (lines []) encoder4 = ([], encoder4)"
  using C3_failed_read_is_published
          [of "lines []" "\<lparr>last_state = Some False\<rparr>" "\<lambda>pin. None" GPIO18
              "SwitchMonitor_init (\<lambda>pin. Some ''1'')" encoder4 1]
  by (simp add: SwitchMonitor_init_def get_switch_states_def read_gpio_def lines_def)

text \<open>
  The claim as stated fails: with the button held as released, a failed read emits a
  \<open>key_change\<close> and replaces the held state.
\<close>

theorem C3_counterexample:
  "ButtonMonitor_check_and_emit (lines []) \<lparr>last_state = Some True\<rparr> =
     ([Key_change None], \<lparr>last_state = None\<rparr>)"
  by (simp add: ButtonMonitor_check_and_emit_def get_button_status_def lines_def Let_def)

text \<open>
  C5 (as the code has it).  The push button and the three switches have no debounce
  window.  In every tick, whatever its time and however recent the previous change, a
  \<open>key_change\<close> (a \<open>switch_change\<close> for a switch) is emitted exactly when the sampled status
  differs from the held one; it carries the sampled status, and the held status becomes
  the sampled one in that same tick.
\<close>

theorem C5_simple_inputs_publish_every_change:
  "(Key_change s \<in> set (fst (monitor_tick t g fs m)) \<longleftrightarrow>
      s = get_button_status g \<and> s \<noteq> last_state (button_monitor m)) \<and>
   last_state (button_monitor (snd (monitor_tick t g fs m))) = get_button_status g \<and>
   (Switch_change (colors p) s \<in> set (fst (monitor_tick t g fs m)) \<longleftrightarrow>
      s = status (get_switch_states fs p) \<and> s \<noteq> status (last_states (switch_monitor m) p)) \<and>
   last_states (switch_monitor (snd (monitor_tick t g fs m))) = get_switch_states fs"
proof -
  have k: "Key_change s \<notin> set (fst (SwitchMonitor_check_and_emit fs (switch_monitor m)))"
    using switch_events_kind by fastforce
  have k2: "Key_change s \<notin> set (fst (update_all t g (encoders m)))"
    using update_all_events_kind[of "Key_change s"] by auto
  have s1: "Switch_change (colors p) s \<notin>
            set (fst (ButtonMonitor_check_and_emit g (button_monitor m)))"
    using button_events_kind by fastforce
  have s2: "Switch_change (colors p) s \<notin> set (fst (update_all t g (encoders m)))"
    using update_all_events_kind[of "Switch_change (colors p) s"] by auto
  show ?thesis
    by (simp add: monitor_tick_events monitor_tick_state k k2 s1 s2
        button_event_iff switch_event_iff button_after switch_after)
qed

text \<open>
  The claim as stated fails: the button goes low at t = 1 s and high again 0.1 ms later,
  far inside 200 ms, and each of the two ticks publishes its own \<open>key_change\<close>.
\<close>

theorem C5_counterexample:
  "fst (monitor_tick 1 (lines [(2, LOW)]) (\<lambda>pin. Some ''1'')
         \<lparr>switch_monitor = SwitchMonitor_init (\<lambda>pin. Some ''1''),
          button_monitor = \<lparr>last_state = Some True\<rparr>, encoders = []\<rparr>)
     = [Key_change (Some False)] \<and>
   fst (monitor_tick 1.0001 (lines [(2, HIGH)]) (\<lambda>pin. Some ''1'')
         (snd (monitor_tick 1 (lines [(2, LOW)]) (\<lambda>pin. Some ''1'')
           \<lparr>switch_monitor = SwitchMonitor_init (\<lambda>pin. Some ''1''),
            button_monitor = \<lparr>last_state = Some True\<rparr>, encoders = []\<rparr>)))
     = [Key_change (Some True)] \<and>
   (1.0001 :: rat) - 1 < button_debounce_delay"
  by (simp add: monitor_tick_def ButtonMonitor_check_and_emit_def get_button_status_def
      SwitchMonitor_check_and_emit_def SwitchMonitor_init_def switch_keys_def lines_def
      button_pin_def button_debounce_delay_def Let_def)

text \<open>
  C6.  The encoder window is measured from the last accepted edge.  Take any run of
  polls that all fall inside the window after the last accepted edge (a line toggling
  faster than the window): none of them moves \<open>last_encoder_time\<close>.  The first poll after
  the window in which A differs from the level last seen is accepted at once:
  \<open>last_encoder_time\<close> becomes its time and, unless a button press resets the counter in
  the same call, the counter moves by one.  And in every call whose reads succeed,
  accepted or not, \<open>last_a\<close> ends up as the sampled A.
\<close>

theorem C6_window_from_last_accepted_edge:
  assumes "\<forall>(t0, g0) \<in> set samples. t0 - last_encoder_time e \<le> encoder_debounce_delay"
    and "g (pin_a e) = Some a" and "g (pin_b e) = Some b"
    and "read_button g (pin_button e) = Some btn"
    and "a \<noteq> last_a (snd (updates samples e))"
    and "t - last_encoder_time e > encoder_debounce_delay"
  shows "last_encoder_time (snd (updates samples e)) = last_encoder_time e \<and>
         last_encoder_time (snd (update t g (snd (updates samples e)))) = t \<and>
         (Encoder_button_press (encoder_id e) \<in>
            set (fst (update t g (snd (updates samples e)))) \<or>
          counter (snd (update t g (snd (updates samples e)))) =
            counter (snd (updates samples e)) + 1 \<or>
          counter (snd (update t g (snd (updates samples e)))) =
            counter (snd (updates samples e)) - 1) \<and>
         (g' (pin_a e') = Some a' \<and> g' (pin_b e') = Some b' \<and>
          read_button g' (pin_button e') = Some btn' \<longrightarrow>
            last_a (snd (update t' g' e')) = a')"
proof -
  define e1 where "e1 = snd (updates samples e)"
  have r: "g (pin_a e1) = Some a" "g (pin_b e1) = Some b"
      "read_button g (pin_button e1) = Some btn"
    using assms by (simp_all add: e1_def)
  have t0: "last_encoder_time e1 = last_encoder_time e"
    unfolding e1_def using assms(1) by (rule updates_time_rejected)
  have t1: "last_encoder_time (snd (update t g e1)) = t"
    using r assms(5,6) t0 by (simp add: update_encoder_time e1_def)
  have q: "counter (update_quadrature t a b e1) = counter e1 + 1 \<or>
           counter (update_quadrature t a b e1) = counter e1 - 1"
    using assms(5,6) t0 by (simp add: update_quadrature_def e1_def)
  have p: "Encoder_button_press (encoder_id e) \<in> set (fst (update t g e1)) \<longleftrightarrow>
           truthy (pin_button e1) \<and> btn = LOW \<and> last_button e1 = HIGH \<and>
           t - last_button_time e1 > button_debounce_delay"
  proof -
    have "Encoder_button_press (encoder_id e) \<in> set (fst (update t g e1)) \<longleftrightarrow>
          Encoder_button_press (encoder_id e) \<in> set (filter is_button_press (fst (update t g e1)))"
      by simp
    also have "\<dots> \<longleftrightarrow> truthy (pin_button e1) \<and> btn = LOW \<and> last_button e1 = HIGH \<and>
           t - last_button_time e1 > button_debounce_delay"
      unfolding update_press_filter[OF r] by (simp add: e1_def)
    finally show ?thesis .
  qed
  have c: "Encoder_button_press (encoder_id e) \<notin> set (fst (update t g e1)) \<Longrightarrow>
           counter (snd (update t g e1)) = counter (update_quadrature t a b e1)"
    unfolding p by (rule update_counter_no_press[OF r])
  have a1: "g' (pin_a e') = Some a' \<and> g' (pin_b e') = Some b' \<and>
          read_button g' (pin_button e') = Some btn' \<longrightarrow>
            last_a (snd (update t' g' e')) = a'"
    by (simp add: update_last_a)
  show ?thesis using t0 t1 a1 q c unfolding e1_def by auto
qed

text \<open>
  Encoder 4, last accepted edge at t = 1 s, A toggling at 1.0002, 1.0004 and 1.0006 s:
  all three are rejected though each is recorded in \<open>last_a\<close>; the toggle at 1.0012 s is
  accepted and counts one step.
\<close>

theorem C6_witness:
  "last_encoder_time encoder4_after_edge = 1 \<and>
   (1.0006 :: rat) - 1 \<le> encoder_debounce_delay \<and>
   last_a (snd (updates fast_toggles encoder4_after_edge)) = HIGH \<and>
   counter (snd (updates fast_toggles encoder4_after_edge)) = 0 \<and>
   last_encoder_time (snd (updates fast_toggles encoder4_after_edge)) = 1 \<and>
   (1.0012 :: rat) - 1 > encoder_debounce_delay \<and>
   last_encoder_time (snd (update 1.0012 (lines [(23, LOW), (24, HIGH)])
      (snd (updates fast_toggles encoder4_after_edge)))) = 1.0012 \<and>
   counter (snd (update 1.0012 (lines [(23, LOW), (24, HIGH)])
      (snd (updates fast_toggles encoder4_after_edge)))) = 1 \<and>
   last_a (snd (update 1.0002 (lines [(23, HIGH), (24, LOW)]) encoder4_after_edge)) = HIGH"
  using C6_window_from_last_accepted_edge
     [of fast_toggles encoder4_after_edge "lines [(23, LOW), (24, HIGH)]" LOW HIGH HIGH "1.0012"
         "lines [(23, HIGH), (24, LOW)]" encoder4_after_edge HIGH LOW HIGH "1.0002"]
  by (simp add: encoder4_after_edge_def fast_toggles_def update_def update_quadrature_def update_button_def update_emit_def
      read_button_def truthy_def lines_def RotaryEncoder_init_def encoder_debounce_delay_def
      button_debounce_delay_def Let_def)



text \<open>
  C8.  A full sampling pass run twice with the same raw inputs, unchanged from the levels
  the engine holds (button status, switch statuses, and for every encoder phase A and
  the button line), emits nothing in either pass.  Every encoder's last emitted value
  equals its counter, as it does from construction on.
\<close>

theorem C8_unchanged_inputs_emit_nothing:
  assumes "get_button_status g = last_state (button_monitor m)"
    and "\<forall>p. status (get_switch_states fs p) = status (last_states (switch_monitor m) p)"
    and "\<forall>e \<in> set (encoders m). unchanged_encoder g e"
  shows "fst (monitor_tick t1 g fs m) = [] \<and>
         fst (monitor_tick t2 g fs (snd (monitor_tick t1 g fs m))) = []"
proof -
  note 1 = tick_unchanged[OF assms, of t1]
  have 2: "fst (monitor_tick t2 g fs (snd (monitor_tick t1 g fs m))) = []"
    using 1 tick_unchanged[of g "snd (monitor_tick t1 g fs m)" fs t2] by blast
  show ?thesis using 1 2 by simp
qed

text \<open>Evaluating the manager with nothing touched.\<close>

lemma pulled_up_reads:
  "pulled_up 2 = Some HIGH" "pulled_up 4 = Some HIGH" "pulled_up 17 = Some HIGH"
  "pulled_up 19 = Some HIGH" "pulled_up 27 = Some HIGH" "pulled_up 22 = Some HIGH"
  "pulled_up 13 = Some HIGH" "pulled_up 5 = Some HIGH" "pulled_up 6 = Some HIGH"
  "pulled_up 26 = Some HIGH" "pulled_up 23 = Some HIGH" "pulled_up 24 = Some HIGH"
  by (simp_all add: pulled_up_def lines_def)

lemma setup_encoders_pulled_up:
  "setup_encoders pulled_up =
     [encoder_at_rest 3 4 17 (Some 19), encoder_at_rest 2 27 22 (Some 13),
      encoder_at_rest 1 5 6 (Some 26), encoder_at_rest 4 23 24 None]"
  by (simp add: setup_encoders_def encoder_configs_def setup_gpio_def RotaryEncoder_init_def
      read_button_def pulled_up_reads encoder_at_rest_def)

lemma update_at_rest:
  "pulled_up a = Some HIGH \<Longrightarrow> pulled_up b = Some HIGH \<Longrightarrow>
   read_button pulled_up btn = Some HIGH \<Longrightarrow>
   update t pulled_up (encoder_at_rest eid a b btn) = ([], encoder_at_rest eid a b btn)"
  by (simp add: update_def update_quadrature_def update_button_def update_emit_def
      encoder_at_rest_def RotaryEncoder_init_def Let_def)

lemma update_all_at_rest:
  "update_all t pulled_up (setup_encoders pulled_up) = ([], setup_encoders pulled_up)"
  by (simp add: setup_encoders_pulled_up update_all.simps update_at_rest pulled_up_reads
      read_button_def)

lemma button_pulled_up: "get_button_status pulled_up = Some True"
  by (simp add: get_button_status_def button_pin_def pulled_up_reads)

lemma button_check_pulled_up:
  "ButtonMonitor_check_and_emit pulled_up ButtonMonitor_init =
     ([Key_change (Some True)], \<lparr>last_state = Some True\<rparr>)"
  by (auto simp: ButtonMonitor_check_and_emit_def ButtonMonitor_init_def button_pulled_up Let_def)

lemma switch_check_released:
  "SwitchMonitor_check_and_emit released (SwitchMonitor_init released) =
     ([], \<lparr>last_states = get_switch_states released\<rparr>)"
  by (simp add: SwitchMonitor_check_and_emit_def SwitchMonitor_init_def Let_def)

lemma first_tick:
  "monitor_tick 1 pulled_up released (FirmwareManager_init pulled_up released) =
     ([Key_change (Some True)],
      \<lparr>switch_monitor = \<lparr>last_states = get_switch_states released\<rparr>,
       button_monitor = \<lparr>last_state = Some True\<rparr>,
       encoders = setup_encoders pulled_up\<rparr>)"
  by (simp add: monitor_tick_def FirmwareManager_init_def update_all_at_rest
      button_check_pulled_up switch_check_released)

text \<open>
  Nothing touched: after the first tick, which reports the button once, the second and
  third ticks are silent.
\<close>

theorem C8_witness:
  "fst (monitor_tick 1 pulled_up released (FirmwareManager_init pulled_up released)) =
     [Key_change (Some True)] \<and>
   get_button_status pulled_up = last_state (button_monitor after_first_tick) \<and>
   length (encoders after_first_tick) = 4 \<and>
   fst (monitor_tick 2 pulled_up released after_first_tick) = [] \<and>
   fst (monitor_tick 3 pulled_up released
         (snd (monitor_tick 2 pulled_up released after_first_tick))) = []"
  using C8_unchanged_inputs_emit_nothing [of pulled_up after_first_tick released 2 3]
  by (simp add: first_tick after_first_tick_def setup_encoders_pulled_up
      encoder_at_rest_def RotaryEncoder_init_def button_pulled_up
      pulled_up_reads read_button_def truthy_def)


end
